theory Spec2Isabelle
  imports
    Complex_Main
    "HOL-Library.Multiset"
    "HOL-Library.Char_ord"
    "HOL-Library.List_Lexorder"
    "HOL-Library.Product_Lexorder"
begin

section \<open>Insider-threat detection over access logs\<close>

text \<open>
  The repository holds two variants of one function, \<open>identify_insider_threats\<close>:
  \<^item> \<open>src/Insider_Threat_Detection.py\<close> scores sensitive access only and returns the
    series of suspected users (definitions suffixed \<open>_v1\<close> below);
  \<^item> \<open>src/unnamed/part_000\<close> adds the lateral-movement stage and the correlation of both
    suspect sets, and calls the function at module level (unsuffixed definitions).

  Modelling decisions.
  \<^item> A parsed log row is a record with the four columns the code reads. Rows are fully
    populated (no null cells).
  \<^item> \<open>eventtime\<close> is the wall-clock reading of a timestamp as an integer: nanoseconds since
    1970-01-01T00:00:00 on the clock of the column's own time zone. A parsed \<open>eventtime\<close>
    column is either timezone-naive or timezone-aware with one fixed offset from UTC, which
    the frame carries; a Python \<open>datetime\<close> carries its own. Comparing a naive with an aware
    value raises \<open>TypeError\<close>; two aware values compare by their instants.
  \<^item> A Series indexed by user is an association list in index order; \<open>groupby\<close> sorts its
    keys, strings compare lexicographically by character code.
  \<^item> Float results are exact reals with the not-a-number value kept explicit
    (\<open>None\<close>); rounding of binary floating point is not modelled. The sample standard
    deviation of fewer than two values is not-a-number, and every comparison with
    not-a-number is false. Because of the rounding, nothing below states which number the
    threshold is, or which users exceed a threshold that is a number; what is stated about
    the threshold (when it is not-a-number, that it does not decrease with the factor, what
    follows from given suspect sets) holds with and without rounding.
  \<^item> Reading and parsing the file is the environment: a function from path to either the
    exception raised or the parsed frame.
  \<^item> Logging calls are not modelled. The return site reached is kept as a tag; the value the
    Python caller receives is its projection \<open>returned\<close>.
\<close>

subsection \<open>Data model\<close>

record event =
  useridentity :: string
  eventtype :: string
  eventtime :: int
  system :: string

text \<open>Time zone of a column or of a \<open>datetime\<close>: none, or a fixed offset east of UTC in nanoseconds.\<close>

datatype tzinfo = Naive | Aware int

text \<open>A Python \<open>datetime\<close>: its time zone and its wall-clock reading.\<close>

datatype pydatetime = DateTime tzinfo int

datatype exn =
  FileNotFoundError | EmptyDataError | KeyError string | TypeError | OtherException

text \<open>A loaded frame: the time zone of its \<open>eventtime\<close> column and its rows.\<close>

datatype read_result = Raises exn | Frame tzinfo "event list"

type_synonym filesystem = "string \<Rightarrow> read_result"

text \<open>Which \<open>return\<close> statement of the function was reached.\<close>

datatype 'a outcome =
    InvalidInput
  | Failed exn
  | NoSensitiveEvents
  | NoCombinedSuspects
  | Result 'a

fun returned :: "'a outcome \<Rightarrow> 'a option" where
  "returned (Result x) = Some x"
| "returned InvalidInput = None"
| "returned (Failed e) = None"
| "returned NoSensitiveEvents = None"
| "returned NoCombinedSuspects = None"

subsection \<open>Library operations the code calls\<close>

text \<open>
  \<open>datetime(y, m, d)\<close>: a naive \<open>datetime\<close> at midnight of the given day of the proleptic
  Gregorian calendar.
\<close>

definition days_from_civil :: "int \<Rightarrow> int \<Rightarrow> int \<Rightarrow> int" where
  "days_from_civil y m d =
     (let y' = (if m \<le> 2 then y - 1 else y);
          era = y' div 400;
          yoe = y' - era * 400;
          doy = (153 * (if m > 2 then m - 3 else m + 9) + 2) div 5 + d - 1;
          doe = yoe * 365 + yoe div 4 - yoe div 100 + doy
      in era * 146097 + doe - 719468)"

definition datetime :: "int \<Rightarrow> int \<Rightarrow> int \<Rightarrow> pydatetime" where
  "datetime y m d = DateTime Naive (days_from_civil y m d * 86400 * 1000000000)"

text \<open>
  Comparing a datetime column with a \<open>datetime\<close>: defined when both are naive or both are
  aware, and then a comparison of instants (wall-clock reading minus offset).
\<close>

fun utc_offset :: "tzinfo \<Rightarrow> int" where
  "utc_offset Naive = 0"
| "utc_offset (Aware off) = off"

fun is_aware :: "tzinfo \<Rightarrow> bool" where
  "is_aware Naive = False"
| "is_aware (Aware off) = True"

fun tz_of :: "pydatetime \<Rightarrow> tzinfo" where
  "tz_of (DateTime tz wall) = tz"

fun instant :: "pydatetime \<Rightarrow> int" where
  "instant (DateTime tz wall) = wall - utc_offset tz"

definition comparable :: "tzinfo \<Rightarrow> pydatetime \<Rightarrow> bool" where
  "comparable tz d = (is_aware tz = is_aware (tz_of d))"

definition row_instant :: "tzinfo \<Rightarrow> event \<Rightarrow> int" where
  "row_instant tz e = eventtime e - utc_offset tz"

text \<open>Floats: \<open>None\<close> is not-a-number.\<close>

type_synonym float = "real option"

fun fadd :: "float \<Rightarrow> float \<Rightarrow> float" where
  "fadd (Some x) (Some y) = Some (x + y)"
| "fadd _ _ = None"

fun fmul :: "float \<Rightarrow> float \<Rightarrow> float" where
  "fmul (Some x) (Some y) = Some (x * y)"
| "fmul _ _ = None"

fun fgt :: "float \<Rightarrow> float \<Rightarrow> bool" where
  "fgt (Some x) (Some y) = (x > y)"
| "fgt _ _ = False"

text \<open>\<open>Series.mean()\<close> and \<open>Series.std()\<close> (sample deviation, one delta degree of freedom).\<close>

definition series_mean :: "nat list \<Rightarrow> float" where
  "series_mean vs =
     (if vs = [] then None else Some (real (sum_list vs) / real (length vs)))"

definition series_std :: "nat list \<Rightarrow> float" where
  "series_std vs =
     (if length vs \<le> 1 then None
      else let avg = real (sum_list vs) / real (length vs)
           in Some (sqrt ((\<Sum>v\<leftarrow>vs. (avg - real v)\<^sup>2) / real (length vs - 1))))"

text \<open>\<open>Series.max()\<close> of integer values; the maximum of no values is not-a-number.\<close>

fun series_max :: "nat list \<Rightarrow> nat option" where
  "series_max [] = None"
| "series_max (v # vs) = Some (fold max vs v)"

definition nunique :: "'a list \<Rightarrow> nat" where
  "nunique xs = length (remdups xs)"

text \<open>\<open>groupby('useridentity')\<close>: sorted distinct keys, each with its rows in frame order.\<close>

definition groupby_keys :: "event list \<Rightarrow> string list" where
  "groupby_keys df = sort (remdups (map useridentity df))"

definition get_group :: "event list \<Rightarrow> string \<Rightarrow> event list" where
  "get_group df u = filter (\<lambda>e. useridentity e = u) df"

definition groupby_count :: "event list \<Rightarrow> (string \<times> nat) list" where
  "groupby_count df = map (\<lambda>u. (u, length (get_group df u))) (groupby_keys df)"

text \<open>
  \<open>set_index('eventtime').resample('1H')\<close>: one bin per hour from the hour of the earliest
  row to the hour of the latest, empty hours included; bins start on the hour.
\<close>

definition hour :: int where
  "hour = 3600 * 1000000000"

definition bin :: "event \<Rightarrow> int" where
  "bin e = eventtime e div hour"

fun resample_1H :: "event list \<Rightarrow> event list list" where
  "resample_1H [] = []"
| "resample_1H (e # g) =
     (let first = fold min (map bin g) (bin e);
          last = fold max (map bin g) (bin e)
      in map (\<lambda>b. filter (\<lambda>x. bin x = b) (e # g)) [first..last])"

subsection \<open>The stages of \<open>identify_insider_threats\<close> (src/unnamed/part_000)\<close>

text \<open>
  Lines 36-42: date defaulting and the filter on \<open>eventtime\<close>. The comparison with
  \<open>start_date\<close> is evaluated first, then the one with \<open>end_date\<close>; each raises \<open>TypeError\<close>
  when the column and the date are not both naive or both aware.
\<close>

definition filter_period ::
    "tzinfo \<Rightarrow> pydatetime option \<Rightarrow> pydatetime option \<Rightarrow> event list \<Rightarrow> exn + event list" where
  "filter_period tz start_date end_date access_logs =
     (let start_date = (case start_date of None \<Rightarrow> datetime 2022 1 1 | Some d \<Rightarrow> d);
          end_date = (case end_date of None \<Rightarrow> datetime 2022 7 1 | Some d \<Rightarrow> d)
      in if \<not> comparable tz start_date then Inl TypeError
         else if \<not> comparable tz end_date then Inl TypeError
         else Inr (filter (\<lambda>e. row_instant tz e \<ge> instant start_date
                               \<and> row_instant tz e < instant end_date) access_logs))"

text \<open>Lines 45-46.\<close>

definition user_sensitive_event_counts :: "string list \<Rightarrow> event list \<Rightarrow> (string \<times> nat) list" where
  "user_sensitive_event_counts sensitive_events access_logs =
     groupby_count (filter (\<lambda>e. eventtype e \<in> set sensitive_events) access_logs)"

text \<open>Line 49.\<close>

definition threshold :: "real \<Rightarrow> (string \<times> nat) list \<Rightarrow> float" where
  "threshold threshold_factor counts =
     fadd (series_mean (map snd counts))
          (fmul (Some threshold_factor) (series_std (map snd counts)))"

text \<open>Line 52.\<close>

definition suspected_insiders :: "real \<Rightarrow> (string \<times> nat) list \<Rightarrow> (string \<times> nat) list" where
  "suspected_insiders threshold_factor counts =
     filter (\<lambda>(u, c). fgt (Some (real c)) (threshold threshold_factor counts)) counts"

text \<open>Lines 55-57.\<close>

definition lateral_movements :: "event list \<Rightarrow> (string \<times> nat option) list" where
  "lateral_movements access_logs =
     map (\<lambda>u. (u, series_max (map (\<lambda>w. nunique (map system w))
                                  (resample_1H (get_group access_logs u)))))
         (groupby_keys access_logs)"

text \<open>Line 58.\<close>

definition lateral_movement_suspects ::
    "int \<Rightarrow> (string \<times> nat option) list \<Rightarrow> (string \<times> nat option) list" where
  "lateral_movement_suspects lateral_threshold lms =
     filter (\<lambda>(u, m). case m of None \<Rightarrow> False | Some v \<Rightarrow> int v \<ge> lateral_threshold) lms"

text \<open>Line 60: intersection of the two indexes.\<close>

definition combined_suspects ::
    "(string \<times> nat) list \<Rightarrow> (string \<times> nat option) list \<Rightarrow> string list" where
  "combined_suspects suspected lm_suspects =
     filter (\<lambda>u. u \<in> set (map fst lm_suspects)) (map fst suspected)"

text \<open>Lines 62-63.\<close>

definition incidents_sorted :: "string list \<Rightarrow> event list \<Rightarrow> event list" where
  "incidents_sorted combined access_logs =
     sort_key (\<lambda>e. (useridentity e, eventtime e))
       (filter (\<lambda>e. useridentity e \<in> set combined) access_logs)"

text \<open>The function, lines 25-82.\<close>

definition identify_insider_threats ::
    "filesystem \<Rightarrow> string \<Rightarrow> string list \<Rightarrow> int \<Rightarrow> pydatetime option \<Rightarrow> pydatetime option
       \<Rightarrow> real \<Rightarrow> event list outcome" where
  "identify_insider_threats fs access_logs_file sensitive_events lateral_threshold
       start_date end_date threshold_factor =
     (if access_logs_file = [] \<or> sensitive_events = [] then InvalidInput
      else case fs access_logs_file of
        Raises e \<Rightarrow> Failed e
      | Frame tz raw \<Rightarrow>
          (case filter_period tz start_date end_date raw of
             Inl e \<Rightarrow> Failed e
           | Inr access_logs \<Rightarrow>
               (let counts = user_sensitive_event_counts sensitive_events access_logs
                in if counts \<noteq> [] then
                     (let suspected = suspected_insiders threshold_factor counts;
                          lm_suspects =
                            lateral_movement_suspects lateral_threshold
                              (lateral_movements access_logs);
                          combined = combined_suspects suspected lm_suspects
                      in if combined \<noteq> [] then Result (incidents_sorted combined access_logs)
                         else NoCombinedSuspects)
                   else NoSensitiveEvents)))"

text \<open>
  Lines 84-95, the statements executed when the module is loaded: two assignments, the call
  with every optional parameter at its default, and the \<open>print\<close> of a result other
  than \<open>None\<close>.
\<close>

record globals =
  access_logs_file_var :: "string option"
  sensitive_events_var :: "string list option"
  suspected_insiders_var :: "event list option option"
  stdout :: "event list list"

definition no_globals :: globals where
  "no_globals = \<lparr>access_logs_file_var = None, sensitive_events_var = None,
                 suspected_insiders_var = None, stdout = []\<rparr>"

definition load_part_000 :: "filesystem \<Rightarrow> globals" where
  "load_part_000 fs =
     (let access_logs_file = ''your_real_access_logs.csv'';
          sensitive_events = [''sensitive_read'', ''sensitive_write''];
          suspected =
            returned (identify_insider_threats fs access_logs_file sensitive_events 5 None None 3)
      in \<lparr>access_logs_file_var = Some access_logs_file,
          sensitive_events_var = Some sensitive_events,
          suspected_insiders_var = Some suspected,
          stdout = (case suspected of Some df \<Rightarrow> [df] | None \<Rightarrow> [])\<rparr>)"

subsection \<open>The variant in src/Insider_Threat_Detection.py\<close>

text \<open>Lines 30-36.\<close>

definition filter_period_v1 ::
    "tzinfo \<Rightarrow> pydatetime option \<Rightarrow> pydatetime option \<Rightarrow> event list \<Rightarrow> exn + event list" where
  "filter_period_v1 tz start_date end_date access_logs =
     (let start_date = (case start_date of None \<Rightarrow> datetime 2022 1 1 | Some d \<Rightarrow> d);
          end_date = (case end_date of None \<Rightarrow> datetime 2022 7 1 | Some d \<Rightarrow> d)
      in if \<not> comparable tz start_date then Inl TypeError
         else if \<not> comparable tz end_date then Inl TypeError
         else Inr (filter (\<lambda>e. row_instant tz e \<ge> instant start_date
                               \<and> row_instant tz e < instant end_date) access_logs))"

text \<open>Lines 39-40.\<close>

definition user_sensitive_event_counts_v1 ::
    "string list \<Rightarrow> event list \<Rightarrow> (string \<times> nat) list" where
  "user_sensitive_event_counts_v1 sensitive_events access_logs =
     groupby_count (filter (\<lambda>e. eventtype e \<in> set sensitive_events) access_logs)"

text \<open>Line 44.\<close>

definition threshold_v1 :: "real \<Rightarrow> (string \<times> nat) list \<Rightarrow> float" where
  "threshold_v1 threshold_factor counts =
     fadd (series_mean (map snd counts))
          (fmul (Some threshold_factor) (series_std (map snd counts)))"

text \<open>Line 47.\<close>

definition suspected_insiders_v1 :: "real \<Rightarrow> (string \<times> nat) list \<Rightarrow> (string \<times> nat) list" where
  "suspected_insiders_v1 threshold_factor counts =
     filter (\<lambda>(u, c). fgt (Some (real c)) (threshold_v1 threshold_factor counts)) counts"

text \<open>The function, lines 18-64.\<close>

definition identify_insider_threats_v1 ::
    "filesystem \<Rightarrow> string \<Rightarrow> string list \<Rightarrow> pydatetime option \<Rightarrow> pydatetime option \<Rightarrow> real
       \<Rightarrow> (string \<times> nat) list outcome" where
  "identify_insider_threats_v1 fs access_logs_file sensitive_events
       start_date end_date threshold_factor =
     (if access_logs_file = [] \<or> sensitive_events = [] then InvalidInput
      else case fs access_logs_file of
        Raises e \<Rightarrow> Failed e
      | Frame tz raw \<Rightarrow>
          (case filter_period_v1 tz start_date end_date raw of
             Inl e \<Rightarrow> Failed e
           | Inr access_logs \<Rightarrow>
               (let counts = user_sensitive_event_counts_v1 sensitive_events access_logs
                in if counts \<noteq> [] then Result (suspected_insiders_v1 threshold_factor counts)
                   else NoSensitiveEvents)))"

text \<open>This file has no statement at module level besides the imports and the definition.\<close>

definition load_Insider_Threat_Detection :: "filesystem \<Rightarrow> globals" where
  "load_Insider_Threat_Detection fs = no_globals"

subsection \<open>The quantities the specification names\<close>

text \<open>
  The specification speaks of the users with at least one sensitive event, of a fixed
  historical window from 2022-01-01 inclusive to 2022-07-01 exclusive, of the half-open
  interval \<open>start_date \<le> event_time < end_date\<close>, and of hour-long windows anchored to
  calendar boundaries. These definitions follow its words and are compared with the list
  computations above.
\<close>

definition sensitive_users :: "string list \<Rightarrow> event list \<Rightarrow> string set" where
  "sensitive_users sens logs = useridentity ` {e \<in> set logs. eventtype e \<in> set sens}"

text \<open>
  Midnight of 2022-01-01 and of 2022-07-01, naive: 1640995200 and 1656633600 seconds after
  1970-01-01T00:00:00.
\<close>

definition default_start :: pydatetime where
  "default_start = DateTime Naive (1640995200 * 1000000000)"

definition default_end :: pydatetime where
  "default_end = DateTime Naive (1656633600 * 1000000000)"

definition in_period :: "tzinfo \<Rightarrow> pydatetime \<Rightarrow> pydatetime \<Rightarrow> event \<Rightarrow> bool" where
  "in_period tz start_date end_date e \<longleftrightarrow>
     instant start_date \<le> row_instant tz e \<and> row_instant tz e < instant end_date"

text \<open>
  The dates in force, and the events of the loaded collection inside the period they
  bound.
\<close>

definition period_start :: "pydatetime option \<Rightarrow> pydatetime" where
  "period_start start_date = (case start_date of None \<Rightarrow> default_start | Some d \<Rightarrow> d)"

definition period_end :: "pydatetime option \<Rightarrow> pydatetime" where
  "period_end end_date = (case end_date of None \<Rightarrow> default_end | Some d \<Rightarrow> d)"

definition period_events ::
    "tzinfo \<Rightarrow> pydatetime option \<Rightarrow> pydatetime option \<Rightarrow> event list \<Rightarrow> event list" where
  "period_events tz start_date end_date raw =
     filter (in_period tz (period_start start_date) (period_end end_date)) raw"

text \<open>Window \<open>w\<close> is the hour \<open>[w * hour, (w + 1) * hour)\<close>.\<close>

definition window_events :: "event list \<Rightarrow> string \<Rightarrow> int \<Rightarrow> event set" where
  "window_events logs u w =
     {e \<in> set logs. useridentity e = u \<and> w * hour \<le> eventtime e \<and> eventtime e < (w + 1) * hour}"

definition distinct_systems :: "event list \<Rightarrow> string \<Rightarrow> int \<Rightarrow> nat" where
  "distinct_systems logs u w = card (system ` window_events logs u w)"

definition max_distinct_systems :: "event list \<Rightarrow> string \<Rightarrow> nat" where
  "max_distinct_systems logs u =
     Max (distinct_systems logs u ` {w. window_events logs u w \<noteq> {}})"

subsection \<open>Sample inputs\<close>

definition row :: "string \<Rightarrow> string \<Rightarrow> int \<Rightarrow> string \<Rightarrow> event" where
  "row u ty t s = \<lparr>useridentity = u, eventtype = ty, eventtime = t, system = s\<rparr>"

text \<open>
  Two users; \<open>a\<close> has four sensitive events and touches three systems within the first
  hour, two of them at the same instant; the last row lies on the end date.
\<close>

definition sample_logs :: "event list" where
  "sample_logs =
     [row ''b'' ''r'' 5 ''s1'',
      row ''b'' ''r'' 6 ''s2'',
      row ''a'' ''r'' 7 ''s2'',
      row ''a'' ''r'' 3 ''s1'',
      row ''a'' ''x'' 7 ''s3'',
      row ''a'' ''r'' 4000000000000 ''s1'',
      row ''a'' ''r'' 5000000000000 ''s1'',
      row ''a'' ''r'' 10000000000000 ''s4'']"

definition sample_fs :: filesystem where
  "sample_fs path = (if path = ''logs.csv'' then Frame Naive sample_logs
                     else if path = ''empty.csv'' then Raises EmptyDataError
                     else Raises FileNotFoundError)"

text \<open>The period used with \<open>sample_logs\<close>, and the rows of \<open>sample_logs\<close> inside it.\<close>

definition sample_start :: pydatetime where
  "sample_start = DateTime Naive 0"

definition sample_end :: pydatetime where
  "sample_end = DateTime Naive 10000000000000"

definition sample_period :: "event list" where
  "sample_period =
     [row ''b'' ''r'' 5 ''s1'',
      row ''b'' ''r'' 6 ''s2'',
      row ''a'' ''r'' 7 ''s2'',
      row ''a'' ''r'' 3 ''s1'',
      row ''a'' ''x'' 7 ''s3'',
      row ''a'' ''r'' 4000000000000 ''s1'',
      row ''a'' ''r'' 5000000000000 ''s1'']"

text \<open>Only one user has sensitive events.\<close>

definition solo_logs :: "event list" where
  "solo_logs = [row ''a'' ''r'' 3 ''s1'', row ''a'' ''r'' 7 ''s2'', row ''b'' ''x'' 8 ''s2'']"

text \<open>
  Three users around the default dates: \<open>a\<close> has a row one nanosecond before
  2022-01-01T00:00, one exactly on it and two more after it; \<open>c\<close> has three rows before
  2022-07-01T00:00, the last one nanosecond before it, and one exactly on it.
\<close>

definition boundary_logs :: "event list" where
  "boundary_logs =
     [row ''a'' ''r'' 1640995199999999999 ''s1'',
      row ''a'' ''r'' 1640995200000000000 ''s1'',
      row ''a'' ''r'' 1640995200000000001 ''s2'',
      row ''a'' ''r'' 1640995200000000002 ''s2'',
      row ''b'' ''r'' 1640995200000000003 ''s1'',
      row ''b'' ''r'' 1640995200000000004 ''s2'',
      row ''c'' ''r'' 1656633599999999997 ''s1'',
      row ''c'' ''r'' 1656633599999999998 ''s2'',
      row ''c'' ''r'' 1656633599999999999 ''s2'',
      row ''c'' ''r'' 1656633600000000000 ''s3'']"

definition boundary_period :: "event list" where
  "boundary_period =
     [row ''a'' ''r'' 1640995200000000000 ''s1'',
      row ''a'' ''r'' 1640995200000000001 ''s2'',
      row ''a'' ''r'' 1640995200000000002 ''s2'',
      row ''b'' ''r'' 1640995200000000003 ''s1'',
      row ''b'' ''r'' 1640995200000000004 ''s2'',
      row ''c'' ''r'' 1656633599999999997 ''s1'',
      row ''c'' ''r'' 1656633599999999998 ''s2'',
      row ''c'' ''r'' 1656633599999999999 ''s2'']"

definition boundary_incidents :: "event list" where
  "boundary_incidents =
     [row ''a'' ''r'' 1640995200000000000 ''s1'',
      row ''a'' ''r'' 1640995200000000001 ''s2'',
      row ''a'' ''r'' 1640995200000000002 ''s2'',
      row ''c'' ''r'' 1656633599999999997 ''s1'',
      row ''c'' ''r'' 1656633599999999998 ''s2'',
      row ''c'' ''r'' 1656633599999999999 ''s2'']"

text \<open>The same rows read once into a naive and once into a UTC-aware column.\<close>

definition boundary_fs :: filesystem where
  "boundary_fs path = (if path = ''naive.csv'' then Frame Naive boundary_logs
                       else if path = ''utc.csv'' then Frame (Aware 0) boundary_logs
                       else Raises FileNotFoundError)"

text \<open>
  Eleven users on 2022-01-01 between 00:00 and 00:01: ten with one sensitive read each, and
  \<open>mallory\<close> with five sensitive events on five systems.
\<close>

definition audit_logs :: "event list" where
  "audit_logs =
     [row ''u0'' ''sensitive_read'' 1640995201000000000 ''s1'',
      row ''u1'' ''sensitive_read'' 1640995202000000000 ''s1'',
      row ''mallory'' ''sensitive_write'' 1640995210000000000 ''s1'',
      row ''u2'' ''sensitive_read'' 1640995203000000000 ''s1'',
      row ''u3'' ''sensitive_read'' 1640995204000000000 ''s1'',
      row ''mallory'' ''sensitive_write'' 1640995220000000000 ''s2'',
      row ''u4'' ''sensitive_read'' 1640995205000000000 ''s1'',
      row ''u5'' ''sensitive_read'' 1640995206000000000 ''s1'',
      row ''mallory'' ''sensitive_read'' 1640995230000000000 ''s3'',
      row ''u6'' ''sensitive_read'' 1640995207000000000 ''s1'',
      row ''u7'' ''sensitive_read'' 1640995208000000000 ''s1'',
      row ''mallory'' ''sensitive_write'' 1640995250000000000 ''s5'',
      row ''u8'' ''sensitive_read'' 1640995209000000000 ''s1'',
      row ''u9'' ''sensitive_read'' 1640995209500000000 ''s1'',
      row ''mallory'' ''sensitive_write'' 1640995240000000000 ''s4'']"

definition audit_fs :: filesystem where
  "audit_fs path = (if path = ''your_real_access_logs.csv'' then Frame Naive audit_logs
                    else Raises FileNotFoundError)"

definition audit_counts :: "(string \<times> nat) list" where
  "audit_counts = [(''mallory'', 5), (''u0'', 1), (''u1'', 1), (''u2'', 1), (''u3'', 1),
       (''u4'', 1), (''u5'', 1), (''u6'', 1), (''u7'', 1), (''u8'', 1), (''u9'', 1)]"

text \<open>The output on \<open>sample_logs\<close> and on \<open>audit_logs\<close>.\<close>

definition sample_incidents :: "event list" where
  "sample_incidents =
     [row ''a'' ''r'' 3 ''s1'',
      row ''a'' ''r'' 7 ''s2'',
      row ''a'' ''x'' 7 ''s3'',
      row ''a'' ''r'' 4000000000000 ''s1'',
      row ''a'' ''r'' 5000000000000 ''s1'']"

definition audit_incidents :: "event list" where
  "audit_incidents =
     [row ''mallory'' ''sensitive_write'' 1640995210000000000 ''s1'',
      row ''mallory'' ''sensitive_write'' 1640995220000000000 ''s2'',
      row ''mallory'' ''sensitive_read'' 1640995230000000000 ''s3'',
      row ''mallory'' ''sensitive_write'' 1640995240000000000 ''s4'',
      row ''mallory'' ''sensitive_write'' 1640995250000000000 ''s5'']"

section \<open>Auxiliary facts\<close>

subsection \<open>Grouping and the count table\<close>

lemma set_groupby_keys: "set (groupby_keys df) = useridentity ` set df"
  by (simp add: groupby_keys_def)

lemma distinct_groupby_keys: "distinct (groupby_keys df)"
  by (simp add: groupby_keys_def)

lemma sorted_groupby_keys: "sorted (groupby_keys df)"
  by (simp add: groupby_keys_def)

lemma length_groupby_keys: "length (groupby_keys df) = card (useridentity ` set df)"
  using distinct_card [OF distinct_groupby_keys, of df] by (simp add: set_groupby_keys)

lemma map_fst_groupby_count: "map fst (groupby_count df) = groupby_keys df"
  by (simp add: groupby_count_def comp_def)

lemma map_snd_groupby_count:
  "map snd (groupby_count df) = map (\<lambda>u. length (get_group df u)) (groupby_keys df)"
  by (simp add: groupby_count_def comp_def)

lemma set_sensitive_keys:
  "set (groupby_keys (filter (\<lambda>e. eventtype e \<in> set sens) logs)) = sensitive_users sens logs"
  by (auto simp: set_groupby_keys sensitive_users_def)

lemma map_fst_counts:
  "map fst (user_sensitive_event_counts sens logs) =
     groupby_keys (filter (\<lambda>e. eventtype e \<in> set sens) logs)"
  by (simp add: user_sensitive_event_counts_def map_fst_groupby_count)

lemma length_counts:
  "length (user_sensitive_event_counts sens logs) = card (sensitive_users sens logs)"
proof -
  have "length (user_sensitive_event_counts sens logs) =
          length (map fst (user_sensitive_event_counts sens logs))"
    by simp
  also have "\<dots> = card (sensitive_users sens logs)"
    unfolding map_fst_counts length_groupby_keys
    by (simp add: sensitive_users_def)
  finally show ?thesis .
qed

lemma count_of_table_entry:
  assumes "(u, c) \<in> set (user_sensitive_event_counts sens logs)"
  shows "c = length (filter (\<lambda>e. useridentity e = u \<and> eventtype e \<in> set sens) logs)"
proof -
  from assms have "c = length (get_group (filter (\<lambda>e. eventtype e \<in> set sens) logs) u)"
    by (auto simp: user_sensitive_event_counts_def groupby_count_def)
  then show ?thesis
    by (simp add: get_group_def conj_commute)
qed

lemma set_suspected_subset: "set (suspected_insiders tf counts) \<subseteq> set counts"
  by (auto simp: suspected_insiders_def)

subsection \<open>Hourly bins and distinct systems\<close>

lemma bin_eq_iff: "bin e = w \<longleftrightarrow> w * hour \<le> eventtime e \<and> eventtime e < (w + 1) * hour"
proof
  have pos: "0 < hour" by (simp add: hour_def)
  let ?t = "eventtime e"
  {
    assume "bin e = w"
    then have w: "w = ?t div hour" by (simp add: bin_def)
    have eq: "hour * (?t div hour) = ?t - ?t mod hour"
      by (simp add: minus_mod_eq_mult_div)
    have "0 \<le> ?t mod hour" "?t mod hour < hour" using pos by simp_all
    then show "w * hour \<le> ?t \<and> ?t < (w + 1) * hour"
      unfolding w by (simp add: algebra_simps eq)
  }
  {
    assume a: "w * hour \<le> ?t \<and> ?t < (w + 1) * hour"
    have "?t = hour * w + (?t - w * hour)" by simp
    moreover have "0 \<le> ?t - w * hour" "?t - w * hour < hour"
      using a by (simp_all add: algebra_simps)
    ultimately have "?t div hour = w" by (rule int_div_pos_eq)
    then show "bin e = w" by (simp add: bin_def)
  }
qed

lemma set_bin_filter:
  "set (filter (\<lambda>x. bin x = w) (get_group logs u)) = window_events logs u w"
  by (auto simp: get_group_def window_events_def bin_eq_iff)

lemma nunique_card: "nunique xs = card (set xs)"
  by (simp add: nunique_def length_remdups_card_conv)

lemma nunique_window:
  "nunique (map system (filter (\<lambda>x. bin x = w) (get_group logs u))) = distinct_systems logs u w"
  by (simp add: nunique_card distinct_systems_def flip: set_bin_filter)

lemma occupied_eq: "{w. window_events logs u w \<noteq> {}} = bin ` set (get_group logs u)"
proof -
  have "window_events logs u w \<noteq> {} \<longleftrightarrow> w \<in> bin ` set (get_group logs u)" for w
    unfolding set_bin_filter [symmetric] by (auto simp: filter_empty_conv)
  then show ?thesis by blast
qed

lemma fold_min_Min: "fold min xs (x::int) = Min (set (x # xs))"
  by (rule Min.set_eq_fold [symmetric])

lemma fold_max_Max: "fold max xs (x::'a::linorder) = Max (set (x # xs))"
  by (rule Max.set_eq_fold [symmetric])

lemma resample_1H_eq:
  assumes "g \<noteq> []"
  shows "resample_1H g =
           map (\<lambda>b. filter (\<lambda>x. bin x = b) g) [Min (bin ` set g) .. Max (bin ` set g)]"
proof (cases g)
  case Nil
  with assms show ?thesis by simp
next
  case (Cons e g')
  show ?thesis
    unfolding Cons resample_1H.simps Let_def fold_min_Min fold_max_Max
    by simp
qed

lemma series_max_eq: "vs \<noteq> [] \<Longrightarrow> series_max vs = Some (Max (set vs))"
  by (cases vs) (simp_all add: fold_max_Max)

lemma Max_over_bins:
  fixes f :: "int \<Rightarrow> nat"
  assumes fin: "finite B" and ne: "B \<noteq> {}"
    and zero: "\<And>w. w \<notin> B \<Longrightarrow> f w = 0"
  shows "Max (f ` {Min B .. Max B}) = Max (f ` B)"
proof (rule antisym)
  have sub: "B \<subseteq> {Min B .. Max B}"
    using fin by auto
  have ne': "{Min B .. Max B} \<noteq> {}"
    using sub ne by blast
  show "Max (f ` B) \<le> Max (f ` {Min B .. Max B})"
    by (rule Max_mono) (use sub ne fin in auto)
  show "Max (f ` {Min B .. Max B}) \<le> Max (f ` B)"
  proof (rule Max.boundedI)
    show "finite (f ` {Min B .. Max B})" by simp
    show "f ` {Min B .. Max B} \<noteq> {}" using ne' by simp
    fix a assume "a \<in> f ` {Min B .. Max B}"
    then obtain w where a: "a = f w" by blast
    show "a \<le> Max (f ` B)"
    proof (cases "w \<in> B")
      case True
      then show ?thesis unfolding a using fin by simp
    next
      case False
      then show ?thesis unfolding a by (simp add: zero)
    qed
  qed
qed

lemma lateral_value:
  assumes "u \<in> useridentity ` set logs"
  shows "series_max (map (\<lambda>w. nunique (map system w)) (resample_1H (get_group logs u))) =
           Some (max_distinct_systems logs u)"
proof -
  let ?g = "get_group logs u" and ?B = "bin ` set (get_group logs u)"
  from assms have ne: "?g \<noteq> []"
    by (auto simp: get_group_def filter_empty_conv)
  then have neB: "?B \<noteq> {}" by simp
  have le: "Min ?B \<le> Max ?B"
    using neB by simp
  have "map (\<lambda>w. nunique (map system w)) (resample_1H ?g) =
          map (distinct_systems logs u) [Min ?B .. Max ?B]"
    by (simp add: resample_1H_eq [OF ne] comp_def nunique_window)
  moreover have "[Min ?B .. Max ?B] \<noteq> []"
    using le by (simp add: upto.simps)
  ultimately have "series_max (map (\<lambda>w. nunique (map system w)) (resample_1H ?g)) =
      Some (Max (distinct_systems logs u ` {Min ?B .. Max ?B}))"
    by (simp add: series_max_eq)
  also have "Max (distinct_systems logs u ` {Min ?B .. Max ?B}) =
      Max (distinct_systems logs u ` ?B)"
  proof (rule Max_over_bins)
    show "finite ?B" by simp
    show "?B \<noteq> {}" by (rule neB)
    fix w assume "w \<notin> ?B"
    then have "window_events logs u w = {}"
      using occupied_eq [of logs u] by blast
    then show "distinct_systems logs u w = 0"
      by (simp add: distinct_systems_def)
  qed
  finally show ?thesis
    by (simp add: max_distinct_systems_def occupied_eq)
qed

lemma lateral_movements_eq:
  "lateral_movements logs =
     map (\<lambda>u. (u, Some (max_distinct_systems logs u))) (groupby_keys logs)"
  unfolding lateral_movements_def
  by (rule map_cong) (simp_all add: set_groupby_keys lateral_value)

lemma map_of_lateral_movements:
  "map_of (lateral_movements logs) u =
     (if u \<in> useridentity ` set logs then Some (Some (max_distinct_systems logs u)) else None)"
  by (simp add: lateral_movements_eq map_of_map_restrict restrict_map_def set_groupby_keys)

lemma fst_set_lateral_suspects:
  "fst ` set (lateral_movement_suspects lt (lateral_movements logs)) =
     {u \<in> useridentity ` set logs. lt \<le> int (max_distinct_systems logs u)}"
proof -
  have "lateral_movement_suspects lt (lateral_movements logs) =
          map (\<lambda>u. (u, Some (max_distinct_systems logs u)))
            (filter (\<lambda>u. lt \<le> int (max_distinct_systems logs u)) (groupby_keys logs))"
    by (simp add: lateral_movement_suspects_def lateral_movements_eq filter_map comp_def)
  then show ?thesis
    by (auto simp: image_image set_groupby_keys)
qed

subsection \<open>The period filter\<close>

lemma datetime_2022_01_01: "datetime 2022 1 1 = default_start"
  by (simp add: datetime_def days_from_civil_def default_start_def)

lemma datetime_2022_07_01: "datetime 2022 7 1 = default_end"
  by (simp add: datetime_def days_from_civil_def default_end_def)

lemma filter_period_cases:
  "filter_period tz sd ed raw =
     (if comparable tz (case sd of None \<Rightarrow> default_start | Some d \<Rightarrow> d)
         \<and> comparable tz (case ed of None \<Rightarrow> default_end | Some d \<Rightarrow> d)
      then Inr (filter (in_period tz (case sd of None \<Rightarrow> default_start | Some d \<Rightarrow> d)
                                     (case ed of None \<Rightarrow> default_end | Some d \<Rightarrow> d)) raw)
      else Inl TypeError)"
proof -
  have "in_period tz lo hi = (\<lambda>e. row_instant tz e \<ge> instant lo \<and> row_instant tz e < instant hi)"
    for lo hi
    by (rule ext) (simp add: in_period_def)
  then show ?thesis
    by (cases sd; cases ed)
       (simp_all add: filter_period_def Let_def datetime_2022_01_01 datetime_2022_07_01)
qed

lemma filter_period_eq:
  "filter_period tz sd ed raw =
     (if comparable tz (period_start sd) \<and> comparable tz (period_end ed)
      then Inr (period_events tz sd ed raw) else Inl TypeError)"
  by (simp add: filter_period_cases period_start_def period_end_def period_events_def)

lemma filter_period_v1_eq: "filter_period_v1 = filter_period"
  by (intro ext) (simp add: filter_period_v1_def filter_period_def)

lemma filter_period_Inl: "filter_period tz sd ed raw = Inl e \<Longrightarrow> e = TypeError"
  by (simp add: filter_period_cases split: if_splits)

subsection \<open>Correlation, ordering and the two variants\<close>

lemma set_combined_suspects:
  "set (combined_suspects s l) = fst ` set s \<inter> fst ` set l"
  by (auto simp: combined_suspects_def)

lemma mset_incidents_sorted:
  "mset (incidents_sorted combined logs) =
     filter_mset (\<lambda>e. useridentity e \<in> set combined) (mset logs)"
  by (simp add: incidents_sorted_def)

lemma identify_on_frame:
  assumes "access_logs_file \<noteq> []" "sensitive_events \<noteq> []"
    and "fs access_logs_file = Frame tz raw"
    and "filter_period tz sd ed raw = Inr logs"
  shows "identify_insider_threats fs access_logs_file sensitive_events lt sd ed tf =
     (let counts = user_sensitive_event_counts sensitive_events logs;
          combined = combined_suspects (suspected_insiders tf counts)
                       (lateral_movement_suspects lt (lateral_movements logs))
      in if counts = [] then NoSensitiveEvents
         else if combined = [] then NoCombinedSuspects
         else Result (incidents_sorted combined logs))"
  using assms by (simp add: identify_insider_threats_def Let_def)

lemma identify_on_type_error:
  assumes "access_logs_file \<noteq> []" "sensitive_events \<noteq> []"
    and "fs access_logs_file = Frame tz raw"
    and "filter_period tz sd ed raw = Inl e"
  shows "identify_insider_threats fs access_logs_file sensitive_events lt sd ed tf = Failed e"
  using assms by (simp add: identify_insider_threats_def)

lemma counts_v1_eq: "user_sensitive_event_counts_v1 = user_sensitive_event_counts"
  by (intro ext) (simp add: user_sensitive_event_counts_v1_def user_sensitive_event_counts_def)

lemma threshold_v1_eq: "threshold_v1 = threshold"
  by (intro ext) (simp add: threshold_v1_def threshold_def)

lemma suspected_v1_eq: "suspected_insiders_v1 = suspected_insiders"
  by (intro ext) (simp add: suspected_insiders_v1_def suspected_insiders_def threshold_v1_eq)

lemma identify_v1_on_frame:
  assumes "access_logs_file \<noteq> []" "sensitive_events \<noteq> []"
    and "fs access_logs_file = Frame tz raw"
    and "filter_period tz sd ed raw = Inr logs"
  shows "identify_insider_threats_v1 fs access_logs_file sensitive_events sd ed tf =
     (let counts = user_sensitive_event_counts sensitive_events logs
      in if counts = [] then NoSensitiveEvents
         else Result (suspected_insiders tf counts))"
  using assms
  by (simp add: identify_insider_threats_v1_def Let_def filter_period_v1_eq counts_v1_eq
      suspected_v1_eq)

lemma identify_v1_on_type_error:
  assumes "access_logs_file \<noteq> []" "sensitive_events \<noteq> []"
    and "fs access_logs_file = Frame tz raw"
    and "filter_period tz sd ed raw = Inl e"
  shows "identify_insider_threats_v1 fs access_logs_file sensitive_events sd ed tf = Failed e"
  using assms by (simp add: identify_insider_threats_v1_def filter_period_v1_eq)

lemma incidents_sorted_nonempty:
  assumes "combined_suspects s (lateral_movement_suspects lt (lateral_movements logs)) \<noteq> []"
  shows "incidents_sorted
           (combined_suspects s (lateral_movement_suspects lt (lateral_movements logs))) logs \<noteq> []"
proof -
  let ?c = "combined_suspects s (lateral_movement_suspects lt (lateral_movements logs))"
  from assms obtain u where u: "u \<in> set ?c"
    by (cases ?c) auto
  then have "u \<in> fst ` set (lateral_movement_suspects lt (lateral_movements logs))"
    by (simp add: set_combined_suspects)
  then have "u \<in> useridentity ` set logs"
    by (simp add: fst_set_lateral_suspects)
  then obtain e where "e \<in> set logs" "useridentity e = u" by blast
  with u have "e \<in> set (incidents_sorted ?c logs)"
    by (simp add: incidents_sorted_def)
  then show ?thesis by auto
qed

lemma fgt_Some_iff: "fgt (Some x) th \<longleftrightarrow> (\<exists>t. th = Some t \<and> t < x)"
  by (cases th) simp_all

lemma series_std_nonneg: "series_std vs = Some s \<Longrightarrow> 0 \<le> s"
proof -
  assume a: "series_std vs = Some s"
  then have len: "1 < length vs"
    by (auto simp: series_std_def split: if_splits)
  let ?avg = "real (sum_list vs) / real (length vs)"
  have "0 \<le> (\<Sum>v\<leftarrow>vs. (?avg - real v)\<^sup>2)"
    by (rule sum_list_nonneg) auto
  moreover have "0 < real (length vs - 1)"
    using len by simp
  ultimately have "0 \<le> (\<Sum>v\<leftarrow>vs. (?avg - real v)\<^sup>2) / real (length vs - 1)"
    by simp
  then have "0 \<le> sqrt ((\<Sum>v\<leftarrow>vs. (?avg - real v)\<^sup>2) / real (length vs - 1))"
    by (rule real_sqrt_ge_zero)
  with a len show ?thesis
    by (simp add: series_std_def Let_def)
qed

lemma threshold_mono:
  assumes "f1 \<le> f2" and "threshold f2 counts = Some t2"
  shows "\<exists>t1. threshold f1 counts = Some t1 \<and> t1 \<le> t2"
proof -
  from assms(2) obtain m s where m: "series_mean (map snd counts) = Some m"
    and s: "series_std (map snd counts) = Some s" and t2: "t2 = m + f2 * s"
    unfolding threshold_def
    by (cases "series_mean (map snd counts)"; cases "series_std (map snd counts)") auto
  from s have "0 \<le> s" by (rule series_std_nonneg)
  with assms(1) have "f1 * s \<le> f2 * s" by (rule mult_right_mono)
  then show ?thesis
    by (simp add: threshold_def m s t2)
qed

lemma threshold_undefined_below_two:
  assumes "length counts < 2"
  shows "threshold tf counts = None"
proof -
  from assms have "series_std (map snd counts) = None"
    by (simp add: series_std_def)
  then show ?thesis
    by (simp add: threshold_def)
qed

subsection \<open>The sample inputs, evaluated\<close>

lemma sample_filtered:
  "filter_period Naive (Some sample_start) (Some sample_end) sample_logs = Inr sample_period"
  by (simp add: filter_period_def comparable_def row_instant_def sample_start_def
      sample_end_def sample_logs_def sample_period_def row_def)

lemma sample_counts:
  "user_sensitive_event_counts [''r''] sample_period = [(''a'', 4), (''b'', 2)]"
  by (simp add: user_sensitive_event_counts_def groupby_count_def groupby_keys_def
      get_group_def sample_period_def row_def)

lemma sample_threshold: "threshold 0 [(''a'', 4), (''b'', 2)] = Some 3"
  by (simp add: threshold_def series_mean_def series_std_def)

lemma sample_suspected: "suspected_insiders 0 [(''a'', 4), (''b'', 2)] = [(''a'', 4)]"
  by (simp add: suspected_insiders_def sample_threshold)

lemma sample_lateral:
  "lateral_movements sample_period = [(''a'', Some 3), (''b'', Some 2)]"
  by (simp add: lateral_movements_def groupby_keys_def get_group_def bin_def hour_def
      nunique_def upto.simps sample_period_def row_def)

lemma sample_fs_logs: "sample_fs ''logs.csv'' = Frame Naive sample_logs"
  by (simp add: sample_fs_def)

lemma sample_incidents_eval: "incidents_sorted [''a''] sample_period = sample_incidents"
  by (simp add: incidents_sorted_def sample_period_def sample_incidents_def row_def)

lemma sample_result:
  "identify_insider_threats sample_fs ''logs.csv'' [''r''] 3 (Some sample_start)
     (Some sample_end) 0 = Result sample_incidents"
proof -
  have lms: "lateral_movement_suspects 3 [(''a'', Some 3), (''b'', Some 2)] = [(''a'', Some 3)]"
    by (simp add: lateral_movement_suspects_def)
  have comb: "combined_suspects [(''a'', 4)] [(''a'', Some 3)] = [''a'']"
    by (simp add: combined_suspects_def)
  show ?thesis
    by (simp add: identify_insider_threats_def sample_fs_logs sample_filtered sample_counts
        sample_suspected sample_lateral lms comb sample_incidents_eval)
qed

lemma sample_no_signal:
  "identify_insider_threats sample_fs ''logs.csv'' [''absent''] 3 (Some sample_start)
     (Some sample_end) 0 = NoSensitiveEvents"
  by (simp add: identify_insider_threats_def sample_fs_logs sample_filtered
      user_sensitive_event_counts_def groupby_count_def groupby_keys_def sample_period_def
      row_def)

lemma sample_file_missing:
  "identify_insider_threats sample_fs ''missing.csv'' [''r''] 3 (Some sample_start)
     (Some sample_end) 0 = Failed FileNotFoundError"
  by (simp add: identify_insider_threats_def sample_fs_def)

lemma sample_no_common_suspect:
  "identify_insider_threats sample_fs ''logs.csv'' [''r''] 4 (Some sample_start)
     (Some sample_end) 0 = NoCombinedSuspects"
proof -
  have lms: "lateral_movement_suspects 4 [(''a'', Some 3), (''b'', Some 2)] = []"
    by (simp add: lateral_movement_suspects_def)
  have comb: "combined_suspects [(''a'', 4)] [] = []"
    by (simp add: combined_suspects_def)
  show ?thesis
    by (simp add: identify_insider_threats_def sample_fs_logs sample_filtered sample_counts
        sample_suspected sample_lateral lms comb)
qed

lemma solo_counts: "user_sensitive_event_counts [''r''] solo_logs = [(''a'', 2)]"
  by (simp add: user_sensitive_event_counts_def groupby_count_def groupby_keys_def
      get_group_def solo_logs_def row_def)

lemma boundary_filtered: "filter_period Naive None None boundary_logs = Inr boundary_period"
  by (simp add: filter_period_cases comparable_def in_period_def row_instant_def
      default_start_def default_end_def boundary_logs_def boundary_period_def row_def)

lemma boundary_aware_filtered: "filter_period (Aware 0) None None boundary_logs = Inl TypeError"
  by (simp add: filter_period_cases comparable_def default_start_def default_end_def)

lemma boundary_counts:
  "user_sensitive_event_counts [''r''] boundary_period = [(''a'', 3), (''b'', 2), (''c'', 3)]"
  by (simp add: user_sensitive_event_counts_def groupby_count_def groupby_keys_def
      get_group_def boundary_period_def row_def)

lemma boundary_threshold: "threshold 0 [(''a'', 3), (''b'', 2), (''c'', 3)] = Some (8 / 3)"
  by (simp add: threshold_def series_mean_def series_std_def)

lemma boundary_suspected:
  "suspected_insiders 0 [(''a'', 3), (''b'', 2), (''c'', 3)] = [(''a'', 3), (''c'', 3)]"
  by (simp add: suspected_insiders_def boundary_threshold)

lemma boundary_lateral:
  "lateral_movements boundary_period = [(''a'', Some 2), (''b'', Some 2), (''c'', Some 2)]"
  by (simp add: lateral_movements_def groupby_keys_def get_group_def bin_def hour_def
      nunique_def upto.simps boundary_period_def row_def)

lemma boundary_incidents_eval:
  "incidents_sorted [''a'', ''c''] boundary_period = boundary_incidents"
  by (simp add: incidents_sorted_def boundary_period_def boundary_incidents_def row_def)

lemma boundary_fs_naive: "boundary_fs ''naive.csv'' = Frame Naive boundary_logs"
  by (simp add: boundary_fs_def)

lemma boundary_fs_utc: "boundary_fs ''utc.csv'' = Frame (Aware 0) boundary_logs"
  by (simp add: boundary_fs_def)

lemma boundary_result:
  "identify_insider_threats boundary_fs ''naive.csv'' [''r''] 2 None None 0 =
     Result boundary_incidents"
proof -
  have lms: "lateral_movement_suspects 2 [(''a'', Some 2), (''b'', Some 2), (''c'', Some 2)] =
               [(''a'', Some 2), (''b'', Some 2), (''c'', Some 2)]"
    by (simp add: lateral_movement_suspects_def)
  have comb: "combined_suspects [(''a'', 3), (''c'', 3)]
                [(''a'', Some 2), (''b'', Some 2), (''c'', Some 2)] = [''a'', ''c'']"
    by (simp add: combined_suspects_def)
  show ?thesis
    by (simp add: identify_insider_threats_def boundary_fs_naive boundary_filtered
        boundary_counts boundary_suspected boundary_lateral lms comb boundary_incidents_eval)
qed

lemma boundary_result_v1:
  "identify_insider_threats_v1 boundary_fs ''naive.csv'' [''r''] None None 0 =
     Result [(''a'', 3), (''c'', 3)]"
  by (simp add: identify_insider_threats_v1_def boundary_fs_naive filter_period_v1_eq
      counts_v1_eq suspected_v1_eq boundary_filtered boundary_counts boundary_suspected)

lemma audit_filtered: "filter_period Naive None None audit_logs = Inr audit_logs"
  by (simp add: filter_period_cases comparable_def in_period_def row_instant_def
      default_start_def default_end_def audit_logs_def row_def)

lemma audit_counts_eval:
  "user_sensitive_event_counts [''sensitive_read'', ''sensitive_write''] audit_logs = audit_counts"
  by (simp add: user_sensitive_event_counts_def groupby_count_def groupby_keys_def
      get_group_def audit_logs_def audit_counts_def row_def)

lemma audit_mean: "series_mean (map snd audit_counts) = Some (15 / 11)"
  by (simp add: series_mean_def audit_counts_def)

lemma audit_std: "series_std (map snd audit_counts) = Some (sqrt (16 / 11))"
  by (simp add: series_std_def audit_counts_def power2_eq_square)

lemma audit_threshold: "threshold 3 audit_counts = Some (15 / 11 + 3 * sqrt (16 / 11))"
  by (simp only: threshold_def audit_mean audit_std fadd.simps fmul.simps)

lemma audit_threshold_bounds:
  "1 < 15 / 11 + 3 * sqrt (16 / 11)" "15 / 11 + 3 * sqrt (16 / 11) < (5::real)"
proof -
  have "0 \<le> sqrt (16 / 11 :: real)" by (rule real_sqrt_ge_zero) simp
  then show "1 < 15 / 11 + 3 * sqrt (16 / 11)" by linarith
  have "sqrt (16 / 11 :: real) < 40 / 33"
    by (rule real_less_lsqrt) (simp_all add: power2_eq_square)
  then show "15 / 11 + 3 * sqrt (16 / 11) < (5::real)" by linarith
qed

lemma audit_suspected: "suspected_insiders 3 audit_counts = [(''mallory'', 5)]"
proof -
  have "suspected_insiders 3 audit_counts =
          filter (\<lambda>(u, c). 15 / 11 + 3 * sqrt (16 / 11) < real c) audit_counts"
    by (simp only: suspected_insiders_def audit_threshold fgt.simps)
  also have "\<dots> = [(''mallory'', 5)]"
    using audit_threshold_bounds by (simp add: audit_counts_def)
  finally show ?thesis .
qed

lemma audit_lateral:
  "lateral_movements audit_logs =
     [(''mallory'', Some 5), (''u0'', Some 1), (''u1'', Some 1), (''u2'', Some 1),
      (''u3'', Some 1), (''u4'', Some 1), (''u5'', Some 1), (''u6'', Some 1), (''u7'', Some 1),
      (''u8'', Some 1), (''u9'', Some 1)]"
  by (simp add: lateral_movements_def groupby_keys_def get_group_def bin_def hour_def
      nunique_def upto.simps audit_logs_def row_def)

lemma audit_lateral_suspects:
  "lateral_movement_suspects 5 (lateral_movements audit_logs) = [(''mallory'', Some 5)]"
  by (simp add: audit_lateral lateral_movement_suspects_def)

lemma audit_incidents_eval: "incidents_sorted [''mallory''] audit_logs = audit_incidents"
  by (simp add: incidents_sorted_def audit_logs_def audit_incidents_def row_def)

lemma audit_result:
  "identify_insider_threats audit_fs ''your_real_access_logs.csv''
       [''sensitive_read'', ''sensitive_write''] 5 None None 3 = Result audit_incidents"
proof -
  have fs: "audit_fs ''your_real_access_logs.csv'' = Frame Naive audit_logs"
    by (simp add: audit_fs_def)
  have ne: "audit_counts \<noteq> []"
    by (simp add: audit_counts_def)
  have comb: "combined_suspects [(''mallory'', 5)] [(''mallory'', Some 5)] = [''mallory'']"
    by (simp add: combined_suspects_def)
  have "identify_insider_threats audit_fs ''your_real_access_logs.csv''
       [''sensitive_read'', ''sensitive_write''] 5 None None 3 =
       Result (incidents_sorted [''mallory''] audit_logs)"
    unfolding identify_insider_threats_def fs
    by (simp add: audit_filtered audit_counts_eval ne audit_suspected audit_lateral_suspects comb)
  then show ?thesis
    by (simp only: audit_incidents_eval)
qed

section \<open>The claims\<close>

subsection \<open>C1: the incident set\<close>

text \<open>
  C1. Whenever the count table is not empty, so that both suspect sets are computed, the
  returned incident set holds exactly the filtered events, sensitive or not and with their
  multiplicity, whose user is in both the sensitive-access suspect set and the
  lateral-movement suspect set. A return of \<open>None\<close> at this point stands for the empty
  incident set.
\<close>

theorem incidents_are_events_of_common_suspects:
  assumes "access_logs_file \<noteq> []" and "sensitive_events \<noteq> []"
    and "fs access_logs_file = Frame tz raw"
    and "filter_period tz sd ed raw = Inr logs"
    and "user_sensitive_event_counts sensitive_events logs \<noteq> []"
  shows "mset (case returned (identify_insider_threats fs access_logs_file sensitive_events
                                lt sd ed tf)
               of Some out \<Rightarrow> out | None \<Rightarrow> []) =
         filter_mset
           (\<lambda>e. useridentity e \<in>
                  fst ` set (suspected_insiders tf
                     (user_sensitive_event_counts sensitive_events logs))
                  \<inter> fst ` set (lateral_movement_suspects lt (lateral_movements logs)))
           (mset logs)"
proof -
  let ?counts = "user_sensitive_event_counts sensitive_events logs"
  let ?combined = "combined_suspects (suspected_insiders tf ?counts)
                     (lateral_movement_suspects lt (lateral_movements logs))"
  note on_frame = identify_on_frame [where fs = fs, OF assms(1) assms(2) assms(3) assms(4)]
  show ?thesis
  proof (cases "?combined = []")
    case True
    then have "set ?combined = {}" by simp
    then have "fst ` set (suspected_insiders tf ?counts)
                 \<inter> fst ` set (lateral_movement_suspects lt (lateral_movements logs)) = {}"
      by (simp only: set_combined_suspects)
    then show ?thesis
      using True assms(5) by (simp add: on_frame Let_def)
  next
    case False
    then show ?thesis
      using assms(5)
      by (simp add: on_frame Let_def mset_incidents_sorted set_combined_suspects)
  qed
qed

text \<open>On \<open>sample_logs\<close> the five events of user \<open>a\<close> inside the period are returned.\<close>

theorem incidents_are_events_of_common_suspects_witness:
  "mset sample_incidents =
   filter_mset
     (\<lambda>e. useridentity e \<in>
        fst ` set (suspected_insiders 0 (user_sensitive_event_counts [''r''] sample_period))
        \<inter> fst ` set (lateral_movement_suspects 3 (lateral_movements sample_period)))
     (mset sample_period)"
proof -
  have nonempty_path: "''logs.csv'' \<noteq> []" and sens: "[''r''] \<noteq> []"
    by simp_all
  have counts: "user_sensitive_event_counts [''r''] sample_period \<noteq> []"
    by (simp add: sample_counts)
  show ?thesis
    using incidents_are_events_of_common_suspects
            [where fs = sample_fs and lt = 3 and tf = 0,
             OF nonempty_path sens sample_fs_logs sample_filtered counts]
    by (simp add: sample_result)
qed

subsection \<open>C3: fewer than two users with sensitive events\<close>

text \<open>
  C3, as amended. When fewer than two distinct users contribute a sensitive event, the
  scorer returns no suspects, for every \<open>threshold_factor\<close>, non-positive ones included.
  With exactly one such user the sample standard deviation is not-a-number (it is not 0),
  so the threshold is not-a-number (it is not the mean), and the comparison is false.
\<close>

theorem fewer_than_two_users_no_suspects:
  assumes "card (sensitive_users sens logs) < 2"
  shows "threshold tf (user_sensitive_event_counts sens logs) = None
       \<and> suspected_insiders tf (user_sensitive_event_counts sens logs) = []
       \<and> suspected_insiders_v1 tf (user_sensitive_event_counts_v1 sens logs) = []"
proof -
  from assms have "length (user_sensitive_event_counts sens logs) < 2"
    by (simp only: length_counts)
  then have th: "threshold tf (user_sensitive_event_counts sens logs) = None"
    by (rule threshold_undefined_below_two)
  then have "suspected_insiders tf (user_sensitive_event_counts sens logs) = []"
    by (simp add: suspected_insiders_def filter_empty_conv split_beta)
  with th show ?thesis
    by (simp add: counts_v1_eq suspected_v1_eq)
qed

text \<open>On \<open>solo_logs\<close>, with the negative factor \<open>- 1\<close>, nobody is flagged.\<close>

theorem fewer_than_two_users_no_suspects_witness:
  "card (sensitive_users [''r''] solo_logs) < 2
   \<and> threshold (- 1) (user_sensitive_event_counts [''r''] solo_logs) = None
   \<and> suspected_insiders (- 1) (user_sensitive_event_counts [''r''] solo_logs) = []"
proof -
  have "card (sensitive_users [''r''] solo_logs) = 1"
    using length_counts [of "[''r'']" solo_logs] by (simp add: solo_counts)
  then have h: "card (sensitive_users [''r''] solo_logs) < 2" by simp
  from fewer_than_two_users_no_suspects [OF h, of "- 1"] h show ?thesis by simp
qed

text \<open>
  The claim as worded fails on \<open>solo_logs\<close>: one user has counts, the standard deviation is
  not 0 and the threshold is not the mean 2.
\<close>

theorem single_user_stddev_counterexample:
  "user_sensitive_event_counts [''r''] solo_logs = [(''a'', 2)]
   \<and> series_std (map snd (user_sensitive_event_counts [''r''] solo_logs)) \<noteq> Some 0
   \<and> series_mean (map snd (user_sensitive_event_counts [''r''] solo_logs)) = Some 2
   \<and> threshold 3 (user_sensitive_event_counts [''r''] solo_logs) \<noteq> Some 2"
  by (simp add: solo_counts series_std_def series_mean_def threshold_def)

subsection \<open>C4: lateral movement\<close>

text \<open>
  C4. For every user of the filtered collection the lateral-movement table holds the
  maximum, over the hour-long windows \<open>[w * hour, (w + 1) * hour)\<close> in which the user has
  events, of the number of distinct \<open>system\<close> values among the user's events in that
  window; users without events are absent. The lateral-movement suspect set is exactly the
  users whose maximum is greater than or equal to \<open>lateral_threshold\<close>.
\<close>

theorem lateral_movement_is_max_distinct_systems_per_hour:
  "map_of (lateral_movements logs) =
     (\<lambda>u. if u \<in> useridentity ` set logs then Some (Some (max_distinct_systems logs u))
           else None)
   \<and> fst ` set (lateral_movement_suspects lateral_threshold (lateral_movements logs)) =
     {u \<in> useridentity ` set logs. lateral_threshold \<le> int (max_distinct_systems logs u)}"
proof
  show "map_of (lateral_movements logs) =
     (\<lambda>u. if u \<in> useridentity ` set logs then Some (Some (max_distinct_systems logs u))
           else None)"
    by (rule ext) (rule map_of_lateral_movements)
  show "fst ` set (lateral_movement_suspects lateral_threshold (lateral_movements logs)) =
     {u \<in> useridentity ` set logs. lateral_threshold \<le> int (max_distinct_systems logs u)}"
    by (rule fst_set_lateral_suspects)
qed

text \<open>
  On the rows of \<open>sample_logs\<close> inside the period, user \<open>a\<close> reaches 3 systems in the first
  hour and \<open>b\<close> 2; with threshold 3 (equality counts) only \<open>a\<close> is a suspect.
\<close>

theorem lateral_movement_is_max_distinct_systems_per_hour_witness:
  "max_distinct_systems sample_period ''a'' = 3
   \<and> max_distinct_systems sample_period ''b'' = 2
   \<and> {u \<in> useridentity ` set sample_period.
        3 \<le> int (max_distinct_systems sample_period u)} = {''a''}"
proof -
  note th = lateral_movement_is_max_distinct_systems_per_hour [of sample_period 3]
  from th have m: "map_of [(''a'', Some 3), (''b'', Some (2::nat))] =
     (\<lambda>u. if u \<in> useridentity ` set sample_period
           then Some (Some (max_distinct_systems sample_period u)) else None)"
    by (simp only: sample_lateral)
  have a: "max_distinct_systems sample_period ''a'' = 3"
    using fun_cong [OF m, of "''a''"] by (simp split: if_splits)
  have b: "max_distinct_systems sample_period ''b'' = 2"
    using fun_cong [OF m, of "''b''"] by (simp split: if_splits)
  have "fst ` set (lateral_movement_suspects 3 [(''a'', Some 3), (''b'', Some 2)]) = {''a''}"
    by (simp add: lateral_movement_suspects_def)
  with th have "{u \<in> useridentity ` set sample_period.
                  3 \<le> int (max_distinct_systems sample_period u)} = {''a''}"
    by (simp only: sample_lateral)
  with a b show ?thesis by simp
qed

subsection \<open>C5: monotonicity in the threshold factor\<close>

text \<open>
  C5. For every count table and every pair of factors \<open>f1 \<le> f2\<close>, each suspect computed
  with \<open>threshold_factor = f2\<close> is a suspect computed with \<open>threshold_factor = f1\<close>, in
  both source files.
\<close>

theorem raising_threshold_factor_never_adds_suspects:
  assumes "f1 \<le> f2"
  shows "set (suspected_insiders f2 counts) \<subseteq> set (suspected_insiders f1 counts)
       \<and> set (suspected_insiders_v1 f2 counts) \<subseteq> set (suspected_insiders_v1 f1 counts)"
proof -
  have "set (suspected_insiders f2 counts) \<subseteq> set (suspected_insiders f1 counts)"
  proof
    fix x assume "x \<in> set (suspected_insiders f2 counts)"
    then obtain t2 where x: "x \<in> set counts" and t2: "threshold f2 counts = Some t2"
      and gt: "t2 < real (snd x)"
      by (auto simp: suspected_insiders_def fgt_Some_iff)
    from threshold_mono [OF assms t2] obtain t1
      where "threshold f1 counts = Some t1" "t1 \<le> t2" by blast
    with x gt show "x \<in> set (suspected_insiders f1 counts)"
      by (auto simp: suspected_insiders_def split_beta)
  qed
  then show ?thesis by (simp add: suspected_v1_eq)
qed

text \<open>Factors 0 and 1 on the count table of \<open>sample_logs\<close>.\<close>

theorem raising_threshold_factor_never_adds_suspects_witness:
  "(0::real) \<le> 1 \<and>
   set (suspected_insiders 1 [(''a'', 4), (''b'', 2)]) \<subseteq> {(''a'', 4)}"
proof -
  have h: "(0::real) \<le> 1" by simp
  from raising_threshold_factor_never_adds_suspects [OF h, of "[(''a'', 4), (''b'', 2)]"]
  show ?thesis by (simp only: sample_suspected) simp
qed

subsection \<open>C6: output ordering\<close>

text \<open>
  C6, as amended. The returned incident set is sorted by \<open>(useridentity, eventtime)\<close>
  ascending; for any two output events of the same user, the one with the strictly earlier
  \<open>eventtime\<close> appears before the other. Nothing is said about two events of one user with
  equal times.
\<close>

theorem output_sorted_by_user_then_time:
  assumes "returned (identify_insider_threats fs access_logs_file sensitive_events lt sd ed tf)
             = Some out"
  shows "sorted (map (\<lambda>e. (useridentity e, eventtime e)) out) \<and>
         (\<forall>i j. i < length out \<and> j < length out \<and>
                 useridentity (out ! i) = useridentity (out ! j) \<and>
                 eventtime (out ! i) < eventtime (out ! j) \<longrightarrow> i < j)"
proof -
  let ?key = "\<lambda>e. (useridentity e, eventtime e)"
  from assms obtain combined logs where out: "out = incidents_sorted combined logs"
    by (auto simp: identify_insider_threats_def Let_def
        split: if_splits read_result.splits sum.splits)
  have srt: "sorted (map ?key out)"
    by (simp add: out incidents_sorted_def)
  have "i < j" if "i < length out" "j < length out"
      "useridentity (out ! i) = useridentity (out ! j)"
      "eventtime (out ! i) < eventtime (out ! j)" for i j
  proof (rule ccontr)
    assume "\<not> i < j"
    then have "j \<le> i" by simp
    with srt that(1) have "map ?key out ! j \<le> map ?key out ! i"
      by (simp add: sorted_iff_nth_mono)
    with that show False
      by (simp add: less_eq_prod_def)
  qed
  with srt show ?thesis by blast
qed

text \<open>The output on \<open>sample_logs\<close> is sorted.\<close>

theorem output_sorted_by_user_then_time_witness:
  "returned (identify_insider_threats sample_fs ''logs.csv'' [''r''] 3 (Some sample_start)
               (Some sample_end) 0) = Some sample_incidents
   \<and> sorted (map (\<lambda>e. (useridentity e, eventtime e)) sample_incidents)"
proof -
  have h: "returned (identify_insider_threats sample_fs ''logs.csv'' [''r''] 3
                       (Some sample_start) (Some sample_end) 0) = Some sample_incidents"
    by (simp add: sample_result)
  from output_sorted_by_user_then_time [OF h] h show ?thesis by blast
qed

text \<open>
  The claim as worded fails on \<open>sample_logs\<close>: the second and third output events belong to
  the same user and have the same time, so the third has a time less than or equal to the
  second's, yet it does not appear before it.
\<close>

theorem tie_order_counterexample:
  "returned (identify_insider_threats sample_fs ''logs.csv'' [''r''] 3 (Some sample_start)
               (Some sample_end) 0) = Some sample_incidents
   \<and> length sample_incidents = 5
   \<and> useridentity (sample_incidents ! 2) = useridentity (sample_incidents ! 1)
   \<and> eventtime (sample_incidents ! 2) \<le> eventtime (sample_incidents ! 1)
   \<and> sample_incidents ! 2 \<noteq> sample_incidents ! 1
   \<and> \<not> (2::nat) < 1"
  by (simp add: sample_result sample_incidents_def row_def)

subsection \<open>C7: date defaults and the period filter\<close>

lemma identify_by_period:
  assumes "f \<noteq> []" and "sens \<noteq> []" and "fs f = Frame tz raw"
  shows "identify_insider_threats fs f sens lt sd ed tf =
     (if comparable tz (period_start sd) \<and> comparable tz (period_end ed)
      then (let logs = period_events tz sd ed raw;
                counts = user_sensitive_event_counts sens logs;
                combined = combined_suspects (suspected_insiders tf counts)
                             (lateral_movement_suspects lt (lateral_movements logs))
            in if counts = [] then NoSensitiveEvents
               else if combined = [] then NoCombinedSuspects
               else Result (incidents_sorted combined logs))
      else Failed TypeError)"
proof (cases "comparable tz (period_start sd) \<and> comparable tz (period_end ed)")
  case True
  then have "filter_period tz sd ed raw = Inr (period_events tz sd ed raw)"
    by (simp add: filter_period_eq)
  from identify_on_frame [where fs = fs, OF assms this] True show ?thesis
    by (simp add: Let_def)
next
  case False
  then have "filter_period tz sd ed raw = Inl TypeError"
    by (simp add: filter_period_eq)
  from identify_on_type_error [where fs = fs, OF assms this]
  have "identify_insider_threats fs f sens lt sd ed tf = Failed TypeError" .
  with False show ?thesis
    by (simp only: if_False)
qed

lemma identify_v1_by_period:
  assumes "f \<noteq> []" and "sens \<noteq> []" and "fs f = Frame tz raw"
  shows "identify_insider_threats_v1 fs f sens sd ed tf =
     (if comparable tz (period_start sd) \<and> comparable tz (period_end ed)
      then (let counts = user_sensitive_event_counts sens (period_events tz sd ed raw)
            in if counts = [] then NoSensitiveEvents
               else Result (suspected_insiders tf counts))
      else Failed TypeError)"
proof (cases "comparable tz (period_start sd) \<and> comparable tz (period_end ed)")
  case True
  then have "filter_period tz sd ed raw = Inr (period_events tz sd ed raw)"
    by (simp add: filter_period_eq)
  from identify_v1_on_frame [where fs = fs, OF assms this] True show ?thesis
    by (simp add: Let_def)
next
  case False
  then have "filter_period tz sd ed raw = Inl TypeError"
    by (simp add: filter_period_eq)
  from identify_v1_on_type_error [where fs = fs, OF assms this]
  have "identify_insider_threats_v1 fs f sens sd ed tf = Failed TypeError" .
  with False show ?thesis
    by (simp only: if_False)
qed

lemma result_is_sorted_period_events:
  assumes "f \<noteq> []" and "sens \<noteq> []" and "fs f = Frame tz raw"
    and r: "returned (identify_insider_threats fs f sens lt sd ed tf) = Some out"
  shows "\<exists>combined. out = incidents_sorted combined (period_events tz sd ed raw)"
proof -
  define logs where "logs = period_events tz sd ed raw"
  define counts where "counts = user_sensitive_event_counts sens logs"
  define combined where "combined = combined_suspects (suspected_insiders tf counts)
                     (lateral_movement_suspects lt (lateral_movements logs))"
  define ok where "ok \<longleftrightarrow> comparable tz (period_start sd) \<and> comparable tz (period_end ed)"
  have eq: "identify_insider_threats fs f sens lt sd ed tf =
      (if ok then (if counts = [] then NoSensitiveEvents
                   else if combined = [] then NoCombinedSuspects
                   else Result (incidents_sorted combined logs))
       else Failed TypeError)"
    unfolding ok_def combined_def counts_def logs_def
    using identify_by_period [where fs = fs and lt = lt and sd = sd and ed = ed and tf = tf,
                              OF assms(1) assms(2) assms(3)]
    by (simp only: Let_def)
  from r have "out = incidents_sorted combined logs"
    unfolding eq by (simp split: if_splits)
  then show ?thesis
    unfolding logs_def by blast
qed

lemma result_v1_is_suspects_of_period_events:
  assumes "f \<noteq> []" and "sens \<noteq> []" and "fs f = Frame tz raw"
    and r: "returned (identify_insider_threats_v1 fs f sens sd ed tf) = Some series"
  shows "series = suspected_insiders tf
                    (user_sensitive_event_counts sens (period_events tz sd ed raw))"
proof -
  define counts where "counts = user_sensitive_event_counts sens (period_events tz sd ed raw)"
  define ok where "ok \<longleftrightarrow> comparable tz (period_start sd) \<and> comparable tz (period_end ed)"
  have eq: "identify_insider_threats_v1 fs f sens sd ed tf =
      (if ok then (if counts = [] then NoSensitiveEvents
                   else Result (suspected_insiders tf counts))
       else Failed TypeError)"
    unfolding ok_def counts_def
    using identify_v1_by_period [where fs = fs and sd = sd and ed = ed and tf = tf,
                                 OF assms(1) assms(2) assms(3)]
    by (simp only: Let_def)
  from r have "series = suspected_insiders tf counts"
    unfolding eq by (simp split: if_splits)
  then show ?thesis
    unfolding counts_def .
qed

lemma incidents_of_output_users:
  "mset (incidents_sorted combined logs) =
     {#e \<in># mset logs. useridentity e \<in> useridentity ` set (incidents_sorted combined logs)#}"
proof -
  define out where "out = incidents_sorted combined logs"
  have mem: "x \<in> set out \<longleftrightarrow> x \<in> set logs \<and> useridentity x \<in> set combined" for x
    by (simp add: out_def incidents_sorted_def)
  have "useridentity e \<in> set combined \<longleftrightarrow> useridentity e \<in> useridentity ` set out"
    if e: "e \<in># mset logs" for e
  proof
    assume "useridentity e \<in> set combined"
    with e have "e \<in> set out" by (simp add: mem)
    then show "useridentity e \<in> useridentity ` set out" by (rule imageI)
  next
    assume "useridentity e \<in> useridentity ` set out"
    then obtain x where "x \<in> set out" and "useridentity e = useridentity x" by blast
    then show "useridentity e \<in> set combined" by (simp add: mem)
  qed
  then have "{#e \<in># mset logs. useridentity e \<in> set combined#} =
      {#e \<in># mset logs. useridentity e \<in> useridentity ` set out#}"
    by (rule filter_mset_cong [OF refl])
  then show ?thesis
    unfolding out_def by (simp only: mset_incidents_sorted)
qed

lemma mset_period_events:
  "mset (period_events tz sd ed raw) =
     {#e \<in># mset raw. in_period tz (period_start sd) (period_end ed) e#}"
  by (simp add: period_events_def)

text \<open>
  C7. A start date that is not supplied is 2022-01-01T00:00 and an end date that is not
  supplied is 2022-07-01T00:00, both naive. When the dates in force can be compared with
  the \<open>eventtime\<close> column, each entry point computes its result from exactly the loaded
  events with \<open>start_date \<le> eventtime < end_date\<close>, start inclusive and end exclusive,
  in their order and with their multiplicity; otherwise the comparison raises and the call
  fails. What is returned shows the interval: the incidents returned by
  \<open>src/unnamed/part_000\<close> are all loaded events of their users inside the interval and no
  other, and each count in the series returned by \<open>src/Insider_Threat_Detection.py\<close> is the
  number of loaded sensitive events of that user inside the interval.
\<close>

theorem period_filter_is_half_open_with_defaults:
  assumes "f \<noteq> []" and "sens \<noteq> []" and "fs f = Frame tz raw"
  shows "datetime 2022 1 1 = default_start \<and> datetime 2022 7 1 = default_end
    \<and> identify_insider_threats fs f sens lt sd ed tf =
        (if comparable tz (period_start sd) \<and> comparable tz (period_end ed)
         then (let logs = period_events tz sd ed raw;
                   counts = user_sensitive_event_counts sens logs;
                   combined = combined_suspects (suspected_insiders tf counts)
                                (lateral_movement_suspects lt (lateral_movements logs))
               in if counts = [] then NoSensitiveEvents
                  else if combined = [] then NoCombinedSuspects
                  else Result (incidents_sorted combined logs))
         else Failed TypeError)
    \<and> identify_insider_threats_v1 fs f sens sd ed tf =
        (if comparable tz (period_start sd) \<and> comparable tz (period_end ed)
         then (let counts = user_sensitive_event_counts sens (period_events tz sd ed raw)
               in if counts = [] then NoSensitiveEvents
                  else Result (suspected_insiders tf counts))
         else Failed TypeError)
    \<and> (returned (identify_insider_threats fs f sens lt sd ed tf) = Some out \<longrightarrow>
          mset out = {#e \<in># mset raw. in_period tz (period_start sd) (period_end ed) e
                                       \<and> useridentity e \<in> useridentity ` set out#})
    \<and> (returned (identify_insider_threats_v1 fs f sens sd ed tf) = Some series
          \<and> (u, c) \<in> set series \<longrightarrow>
          c = length (filter (\<lambda>e. in_period tz (period_start sd) (period_end ed) e
                                   \<and> useridentity e = u \<and> eventtype e \<in> set sens) raw))"
proof (intro conjI impI)
  show "datetime 2022 1 1 = default_start"
    by (rule datetime_2022_01_01)
  show "datetime 2022 7 1 = default_end"
    by (rule datetime_2022_07_01)
  show "identify_insider_threats fs f sens lt sd ed tf =
        (if comparable tz (period_start sd) \<and> comparable tz (period_end ed)
         then (let logs = period_events tz sd ed raw;
                   counts = user_sensitive_event_counts sens logs;
                   combined = combined_suspects (suspected_insiders tf counts)
                                (lateral_movement_suspects lt (lateral_movements logs))
               in if counts = [] then NoSensitiveEvents
                  else if combined = [] then NoCombinedSuspects
                  else Result (incidents_sorted combined logs))
         else Failed TypeError)"
    by (rule identify_by_period [where fs = fs, OF assms])
  show "identify_insider_threats_v1 fs f sens sd ed tf =
        (if comparable tz (period_start sd) \<and> comparable tz (period_end ed)
         then (let counts = user_sensitive_event_counts sens (period_events tz sd ed raw)
               in if counts = [] then NoSensitiveEvents
                  else Result (suspected_insiders tf counts))
         else Failed TypeError)"
    by (rule identify_v1_by_period [where fs = fs, OF assms])
next
  assume "returned (identify_insider_threats fs f sens lt sd ed tf) = Some out"
  then have "\<exists>combined. out = incidents_sorted combined (period_events tz sd ed raw)"
    by (rule result_is_sorted_period_events [where fs = fs, OF assms])
  then obtain combined where "out = incidents_sorted combined (period_events tz sd ed raw)" ..
  then have "mset out = {#e \<in># mset (period_events tz sd ed raw).
                          useridentity e \<in> useridentity ` set out#}"
    using incidents_of_output_users [of combined "period_events tz sd ed raw"] by simp
  then show "mset out = {#e \<in># mset raw. in_period tz (period_start sd) (period_end ed) e
                                       \<and> useridentity e \<in> useridentity ` set out#}"
    by (simp add: mset_period_events filter_filter_mset)
next
  assume a: "returned (identify_insider_threats_v1 fs f sens sd ed tf) = Some series
               \<and> (u, c) \<in> set series"
  then have "returned (identify_insider_threats_v1 fs f sens sd ed tf) = Some series" ..
  then have "series = suspected_insiders tf
                        (user_sensitive_event_counts sens (period_events tz sd ed raw))"
    by (rule result_v1_is_suspects_of_period_events [where fs = fs, OF assms])
  with a have "(u, c) \<in> set (user_sensitive_event_counts sens (period_events tz sd ed raw))"
    using set_suspected_subset by blast
  then have "c = length (filter (\<lambda>e. useridentity e = u \<and> eventtype e \<in> set sens)
                           (period_events tz sd ed raw))"
    by (rule count_of_table_entry)
  then show "c = length (filter (\<lambda>e. in_period tz (period_start sd) (period_end ed) e
                                   \<and> useridentity e = u \<and> eventtype e \<in> set sens) raw)"
    by (simp add: period_events_def)
qed

text \<open>
  On \<open>boundary_logs\<close> with both dates left out: read into a UTC-aware column the call fails
  with \<open>TypeError\<close>; read into a naive column, the incidents are the rows of \<open>a\<close> and \<open>c\<close>
  from 2022-01-01T00:00 on and before 2022-07-01T00:00, without the row of \<open>a\<close> one
  nanosecond before the start and without the row of \<open>c\<close> on the end, and the series of the
  other entry point counts three events for \<open>a\<close>, not four.
\<close>

theorem period_filter_is_half_open_with_defaults_witness:
  "identify_insider_threats boundary_fs ''utc.csv'' [''r''] 2 None None 0 = Failed TypeError
   \<and> identify_insider_threats boundary_fs ''naive.csv'' [''r''] 2 None None 0 =
       Result boundary_incidents
   \<and> mset boundary_incidents =
       {#e \<in># mset boundary_logs. in_period Naive (period_start None) (period_end None) e
                                    \<and> useridentity e \<in> useridentity ` set boundary_incidents#}
   \<and> (3::nat) = length (filter (\<lambda>e. in_period Naive (period_start None) (period_end None) e
                                      \<and> useridentity e = ''a'' \<and> eventtype e \<in> set [''r''])
                           boundary_logs)"
proof -
  have p1: "''utc.csv'' \<noteq> []" and p2: "''naive.csv'' \<noteq> []" and p3: "[''r''] \<noteq> []"
    by simp_all
  note utc = period_filter_is_half_open_with_defaults
      [where fs = boundary_fs and lt = 2 and sd = None and ed = None and tf = 0,
       OF p1 p3 boundary_fs_utc]
  note naive = period_filter_is_half_open_with_defaults
      [where fs = boundary_fs and lt = 2 and sd = None and ed = None and tf = 0
         and out = boundary_incidents and series = "[(''a'', 3), (''c'', 3)]"
         and u = "''a''" and c = 3,
       OF p2 p3 boundary_fs_naive]
  have not_comparable: "\<not> comparable (Aware 0) (period_start None)"
    by (simp add: comparable_def period_start_def default_start_def)
  from utc [THEN conjunct2, THEN conjunct2, THEN conjunct1] not_comparable
  have 1: "identify_insider_threats boundary_fs ''utc.csv'' [''r''] 2 None None 0 =
             Failed TypeError"
    by simp
  have r: "returned (identify_insider_threats boundary_fs ''naive.csv'' [''r''] 2 None None 0) =
             Some boundary_incidents"
    by (simp add: boundary_result)
  from naive [THEN conjunct2, THEN conjunct2, THEN conjunct2, THEN conjunct2, THEN conjunct1] r
  have 2: "mset boundary_incidents =
       {#e \<in># mset boundary_logs. in_period Naive (period_start None) (period_end None) e
                                    \<and> useridentity e \<in> useridentity ` set boundary_incidents#}"
    by (rule mp)
  have r1: "returned (identify_insider_threats_v1 boundary_fs ''naive.csv'' [''r''] None None 0) =
              Some [(''a'', 3), (''c'', 3)] \<and> (''a'', 3) \<in> set [(''a'', 3), (''c'', 3)]"
    by (simp add: boundary_result_v1)
  from naive [THEN conjunct2, THEN conjunct2, THEN conjunct2, THEN conjunct2, THEN conjunct2] r1
  have 3: "(3::nat) = length (filter (\<lambda>e. in_period Naive (period_start None) (period_end None) e
                                      \<and> useridentity e = ''a'' \<and> eventtype e \<in> set [''r''])
                           boundary_logs)"
    by (rule mp)
  from 1 boundary_result 2 3 show ?thesis
    by (intro conjI)
qed

subsection \<open>C8: what the caller can tell from the returned value\<close>

text \<open>
  C8, as amended. The value returned by the entry point of \<open>src/unnamed/part_000\<close> is
  \<open>None\<close> exactly when the parameters are invalid, or loading raises an error, or the
  comparison with the dates raises, or the count table is empty, or the two suspect sets
  have no user in common; otherwise it is a non-empty incident set. So the returned value
  separates a non-empty incident set from everything else, and does not separate no signal,
  no common suspect and a detection error from one another. An empty count table is handled
  on the normal path, at the return statement for no sensitive events, not by an exception
  handler. The entry point of \<open>src/Insider_Threat_Detection.py\<close> returns \<open>None\<close> exactly
  when the parameters are invalid, an error is raised, or the count table is empty.
\<close>

theorem return_value_separates_only_nonempty_incidents:
  "(returned (identify_insider_threats fs f sens lt sd ed tf) = None \<longleftrightarrow>
      f = [] \<or> sens = [] \<or> (\<exists>e. fs f = Raises e) \<or>
      (\<exists>tz raw. fs f = Frame tz raw \<and>
         (filter_period tz sd ed raw = Inl TypeError \<or>
          (\<exists>logs. filter_period tz sd ed raw = Inr logs \<and>
             (user_sensitive_event_counts sens logs = [] \<or>
              fst ` set (suspected_insiders tf (user_sensitive_event_counts sens logs))
              \<inter> fst ` set (lateral_movement_suspects lt (lateral_movements logs)) = {})))))
   \<and> returned (identify_insider_threats fs f sens lt sd ed tf) \<noteq> Some []
   \<and> (f \<noteq> [] \<and> sens \<noteq> [] \<and> fs f = Frame tz raw \<and> filter_period tz sd ed raw = Inr logs
        \<and> user_sensitive_event_counts sens logs = []
      \<longrightarrow> identify_insider_threats fs f sens lt sd ed tf = NoSensitiveEvents)
   \<and> (returned (identify_insider_threats_v1 fs f sens sd ed tf) = None \<longleftrightarrow>
      f = [] \<or> sens = [] \<or> (\<exists>e. fs f = Raises e) \<or>
      (\<exists>tz raw. fs f = Frame tz raw \<and>
         (filter_period tz sd ed raw = Inl TypeError \<or>
          (\<exists>logs. filter_period tz sd ed raw = Inr logs \<and>
             user_sensitive_event_counts sens logs = []))))"
proof (intro conjI)
  have comb: "combined_suspects s l = [] \<longleftrightarrow> fst ` set s \<inter> fst ` set l = {}"
    for s :: "(string \<times> nat) list" and l :: "(string \<times> nat option) list"
    using set_combined_suspects [of s l] by (metis set_empty)
  show "returned (identify_insider_threats fs f sens lt sd ed tf) = None \<longleftrightarrow>
      f = [] \<or> sens = [] \<or> (\<exists>e. fs f = Raises e) \<or>
      (\<exists>tz raw. fs f = Frame tz raw \<and>
         (filter_period tz sd ed raw = Inl TypeError \<or>
          (\<exists>logs. filter_period tz sd ed raw = Inr logs \<and>
             (user_sensitive_event_counts sens logs = [] \<or>
              fst ` set (suspected_insiders tf (user_sensitive_event_counts sens logs))
              \<inter> fst ` set (lateral_movement_suspects lt (lateral_movements logs)) = {}))))"
  proof (cases "f = [] \<or> sens = []")
    case True
    then show ?thesis by (auto simp: identify_insider_threats_def)
  next
    case False
    show ?thesis
    proof (cases "fs f")
      case (Raises e)
      with False show ?thesis by (simp add: identify_insider_threats_def)
    next
      case (Frame tz raw)
      show ?thesis
      proof (cases "filter_period tz sd ed raw")
        case (Inl e)
        then have "e = TypeError" by (rule filter_period_Inl)
        with False Frame Inl show ?thesis
          by (simp add: identify_insider_threats_def)
      next
        case (Inr logs)
        from False have "f \<noteq> []" "sens \<noteq> []" by simp_all
        from identify_on_frame [where fs = fs, OF this Frame Inr] False Frame Inr comb
        show ?thesis
          by (simp add: Let_def)
      qed
    qed
  qed
  show "returned (identify_insider_threats fs f sens lt sd ed tf) \<noteq> Some []"
    by (auto simp: identify_insider_threats_def Let_def incidents_sorted_nonempty
        split: read_result.splits sum.splits)
  show "f \<noteq> [] \<and> sens \<noteq> [] \<and> fs f = Frame tz raw \<and> filter_period tz sd ed raw = Inr logs
        \<and> user_sensitive_event_counts sens logs = []
      \<longrightarrow> identify_insider_threats fs f sens lt sd ed tf = NoSensitiveEvents"
    by (simp add: identify_insider_threats_def)
  show "returned (identify_insider_threats_v1 fs f sens sd ed tf) = None \<longleftrightarrow>
      f = [] \<or> sens = [] \<or> (\<exists>e. fs f = Raises e) \<or>
      (\<exists>tz raw. fs f = Frame tz raw \<and>
         (filter_period tz sd ed raw = Inl TypeError \<or>
          (\<exists>logs. filter_period tz sd ed raw = Inr logs \<and>
             user_sensitive_event_counts sens logs = [])))"
  proof (cases "f = [] \<or> sens = []")
    case True
    then show ?thesis by (auto simp: identify_insider_threats_v1_def)
  next
    case False
    show ?thesis
    proof (cases "fs f")
      case (Raises e)
      with False show ?thesis by (simp add: identify_insider_threats_v1_def)
    next
      case (Frame tz raw)
      show ?thesis
      proof (cases "filter_period tz sd ed raw")
        case (Inl e)
        then have "e = TypeError" by (rule filter_period_Inl)
        with False Frame Inl show ?thesis
          by (simp add: identify_insider_threats_v1_def filter_period_v1_eq)
      next
        case (Inr logs)
        from False have "f \<noteq> []" "sens \<noteq> []" by simp_all
        from identify_v1_on_frame [where fs = fs, OF this Frame Inr] False Frame Inr
        show ?thesis
          by (simp add: Let_def)
      qed
    qed
  qed
qed

text \<open>On \<open>sample_logs\<close> with a sensitive type absent from the data.\<close>

theorem return_value_separates_only_nonempty_incidents_witness:
  "identify_insider_threats sample_fs ''logs.csv'' [''absent''] 3 (Some sample_start)
     (Some sample_end) 0 = NoSensitiveEvents
   \<and> returned (identify_insider_threats sample_fs ''logs.csv'' [''absent''] 3
                 (Some sample_start) (Some sample_end) 0) = None"
proof -
  have c: "user_sensitive_event_counts [''absent''] sample_period = []"
    by (simp add: user_sensitive_event_counts_def groupby_count_def groupby_keys_def
        sample_period_def row_def)
  have h: "''logs.csv'' \<noteq> [] \<and> [''absent''] \<noteq> []
        \<and> sample_fs ''logs.csv'' = Frame Naive sample_logs
        \<and> filter_period Naive (Some sample_start) (Some sample_end) sample_logs
            = Inr sample_period
        \<and> user_sensitive_event_counts [''absent''] sample_period = []"
    by (simp add: sample_fs_logs sample_filtered c)
  note th = return_value_separates_only_nonempty_incidents
         [where fs = sample_fs and f = "''logs.csv''" and sens = "[''absent'']" and lt = 3
            and sd = "Some sample_start" and ed = "Some sample_end" and tf = 0
            and tz = Naive and raw = sample_logs and logs = sample_period]
  from th [THEN conjunct2, THEN conjunct2, THEN conjunct1] h
  have "identify_insider_threats sample_fs ''logs.csv'' [''absent''] 3 (Some sample_start)
          (Some sample_end) 0 = NoSensitiveEvents"
    by (rule mp)
  then show ?thesis by simp
qed

text \<open>
  The claim as worded fails on \<open>sample_fs\<close>: a quiet log (no signal), an empty
  intersection and a missing file end at three different return statements and hand the
  caller the same value.
\<close>

theorem outcomes_share_return_value_counterexample:
  "identify_insider_threats sample_fs ''logs.csv'' [''absent''] 3 (Some sample_start)
     (Some sample_end) 0 = NoSensitiveEvents
   \<and> identify_insider_threats sample_fs ''logs.csv'' [''r''] 4 (Some sample_start)
     (Some sample_end) 0 = NoCombinedSuspects
   \<and> identify_insider_threats sample_fs ''missing.csv'' [''r''] 3 (Some sample_start)
     (Some sample_end) 0 = Failed FileNotFoundError
   \<and> returned (identify_insider_threats sample_fs ''logs.csv'' [''absent''] 3
       (Some sample_start) (Some sample_end) 0) =
     returned (identify_insider_threats sample_fs ''missing.csv'' [''r''] 3
       (Some sample_start) (Some sample_end) 0)
   \<and> returned (identify_insider_threats sample_fs ''logs.csv'' [''r''] 4
       (Some sample_start) (Some sample_end) 0) =
     returned (identify_insider_threats sample_fs ''missing.csv'' [''r''] 3
       (Some sample_start) (Some sample_end) 0)"
  by (simp add: sample_no_signal sample_file_missing sample_no_common_suspect)

subsection \<open>C9: what loading the module does\<close>

text \<open>
  C9, as amended. Loading \<open>src/unnamed/part_000\<close> calls \<open>identify_insider_threats\<close> once, on
  \<open>your_real_access_logs.csv\<close> with the sensitive types \<open>sensitive_read\<close> and
  \<open>sensitive_write\<close> and every optional parameter at its default, binds the result to the
  global \<open>suspected_insiders\<close> and prints it when it is not \<open>None\<close>; when the file cannot be
  read the global is bound to \<open>None\<close> and nothing is printed. Loading
  \<open>src/Insider_Threat_Detection.py\<close> binds no such variable and prints nothing.
\<close>

theorem loading_part_000_runs_the_detection:
  "suspected_insiders_var (load_part_000 fs) =
     Some (returned (identify_insider_threats fs ''your_real_access_logs.csv''
                       [''sensitive_read'', ''sensitive_write''] 5 None None 3))
   \<and> stdout (load_part_000 fs) =
     (case returned (identify_insider_threats fs ''your_real_access_logs.csv''
                       [''sensitive_read'', ''sensitive_write''] 5 None None 3)
      of None \<Rightarrow> [] | Some df \<Rightarrow> [df])
   \<and> (fs ''your_real_access_logs.csv'' = Raises e \<longrightarrow>
        suspected_insiders_var (load_part_000 fs) = Some None \<and> stdout (load_part_000 fs) = [])
   \<and> suspected_insiders_var (load_Insider_Threat_Detection fs) = None
   \<and> stdout (load_Insider_Threat_Detection fs) = []"
  by (auto simp: load_part_000_def load_Insider_Threat_Detection_def no_globals_def
      identify_insider_threats_def Let_def split: option.splits)

text \<open>A file system without the file.\<close>

theorem loading_part_000_runs_the_detection_witness:
  "suspected_insiders_var (load_part_000 (\<lambda>_. Raises FileNotFoundError)) = Some None
   \<and> stdout (load_part_000 (\<lambda>_. Raises FileNotFoundError)) = []"
proof -
  have h: "(\<lambda>_. Raises FileNotFoundError) ''your_real_access_logs.csv'' = Raises FileNotFoundError"
    by simp
  from loading_part_000_runs_the_detection
         [of "\<lambda>_. Raises FileNotFoundError" FileNotFoundError] h
  show ?thesis by blast
qed

text \<open>
  The claim as worded fails on \<open>audit_fs\<close>: loading the module alone computes the five
  incidents of \<open>mallory\<close>, binds them to the global and prints them.
\<close>

theorem module_load_produces_suspects_counterexample:
  "suspected_insiders_var (load_part_000 audit_fs) = Some (Some audit_incidents)
   \<and> stdout (load_part_000 audit_fs) = [audit_incidents]
   \<and> audit_incidents \<noteq> []"
  by (simp add: load_part_000_def audit_result audit_incidents_def)

subsection \<open>C10: the scoring stage of the two source files\<close>

text \<open>
  C10. For the same parsed records, sensitive-event set, start date, end date and
  threshold factor, the filtered collection, the count table, the threshold and the
  sensitive-access suspect set computed by \<open>src/Insider_Threat_Detection.py\<close> equal those
  computed by \<open>src/unnamed/part_000\<close>; when the count table is not empty, the value the
  former returns is the suspect series of the latter.
\<close>

theorem scoring_stage_same_in_both_variants:
  "filter_period_v1 tz sd ed raw = filter_period tz sd ed raw
   \<and> user_sensitive_event_counts_v1 sens logs = user_sensitive_event_counts sens logs
   \<and> threshold_v1 tf (user_sensitive_event_counts_v1 sens logs) =
     threshold tf (user_sensitive_event_counts sens logs)
   \<and> suspected_insiders_v1 tf (user_sensitive_event_counts_v1 sens logs) =
     suspected_insiders tf (user_sensitive_event_counts sens logs)
   \<and> (f \<noteq> [] \<and> sens \<noteq> [] \<and> fs f = Frame tz raw \<and> filter_period tz sd ed raw = Inr logs
        \<and> user_sensitive_event_counts sens logs \<noteq> []
      \<longrightarrow> returned (identify_insider_threats_v1 fs f sens sd ed tf) =
            Some (suspected_insiders tf (user_sensitive_event_counts sens logs)))"
  by (simp add: filter_period_v1_eq counts_v1_eq threshold_v1_eq suspected_v1_eq
      identify_insider_threats_v1_def Let_def)

text \<open>On \<open>sample_logs\<close> the first variant returns the series holding user \<open>a\<close>.\<close>

theorem scoring_stage_same_in_both_variants_witness:
  "returned (identify_insider_threats_v1 sample_fs ''logs.csv'' [''r''] (Some sample_start)
               (Some sample_end) 0) = Some [(''a'', 4)]"
proof -
  have h: "''logs.csv'' \<noteq> [] \<and> [''r''] \<noteq> [] \<and> sample_fs ''logs.csv'' = Frame Naive sample_logs
        \<and> filter_period Naive (Some sample_start) (Some sample_end) sample_logs
            = Inr sample_period
        \<and> user_sensitive_event_counts [''r''] sample_period \<noteq> []"
    by (simp add: sample_fs_logs sample_filtered sample_counts)
  note th = scoring_stage_same_in_both_variants
         [where fs = sample_fs and f = "''logs.csv''" and sens = "[''r'']"
            and sd = "Some sample_start" and ed = "Some sample_end" and tf = 0
            and tz = Naive and raw = sample_logs and logs = sample_period]
  from th [THEN conjunct2, THEN conjunct2, THEN conjunct2, THEN conjunct2] h
  have "returned (identify_insider_threats_v1 sample_fs ''logs.csv'' [''r''] (Some sample_start)
               (Some sample_end) 0) =
        Some (suspected_insiders 0 (user_sensitive_event_counts [''r''] sample_period))"
    by (rule mp)
  then show ?thesis
    by (simp only: sample_counts sample_suspected)
qed

end
